theory Spec2Isabelle
  imports Main
begin

section \<open>queuectl: the job table, the store operations and the worker loop\<close>

text \<open>
  The embedding follows \<^verbatim>\<open>queuectl/db.py\<close>, \<^verbatim>\<open>queuectl/job_store.py\<close> and
  \<^verbatim>\<open>queuectl/worker.py\<close>. The SQLite table \<^verbatim>\<open>jobs\<close> is a list of rows in insertion
  order; every function of \<^verbatim>\<open>job_store.py\<close> takes the table and returns the new table.
  Every call of \<^verbatim>\<open>datetime.utcnow()\<close> and \<^verbatim>\<open>now_utc_iso()\<close> is an argument of the
  function that makes it, in the order of the calls.
\<close>

subsection \<open>Timestamps\<close>

text \<open>
  A naive \<^verbatim>\<open>datetime\<close> is the number of microseconds since 0001-01-01T00:00:00. Python
  represents the instants from \<^verbatim>\<open>datetime.min\<close> (0) to \<^verbatim>\<open>datetime.max\<close>
  (9999-12-31T23:59:59.999999, ordinal day 3652059). The table stores
  \<^verbatim>\<open>isoformat()\<close> text and SQLite compares it as text; on naive datetimes that order is
  the order of the instants, so the comparison \<^verbatim>\<open>available_at <= ?\<close> is \<open>\<le>\<close> here.
  Timezone-aware datetimes, which a caller of \<^verbatim>\<open>enqueue_job\<close> could pass as
  \<open>available_at\<close>, are left out.
\<close>

type_synonym datetime = int

definition MAXDATETIME :: datetime where
  "MAXDATETIME = 3652059 * 86400 * 1000000 - 1"

definition valid_datetime :: "datetime \<Rightarrow> bool" where
  "valid_datetime t = (0 \<le> t \<and> t \<le> MAXDATETIME)"

datatype exn = ValueError string | OverflowError | TypeError | RecursionError | OperationalError

text \<open>
  \<^verbatim>\<open>timedelta(seconds=n)\<close> for an integer \<open>n\<close>: the value is normalised to days, seconds
  and microseconds, and the constructor raises \<^verbatim>\<open>OverflowError\<close> when the days exceed
  999999999 in magnitude. The result is the duration in microseconds.
\<close>

definition timedelta :: "int \<Rightarrow> exn + int" where
  "timedelta seconds =
     (let days = seconds div 86400
      in if days < - 999999999 \<or> 999999999 < days then Inl OverflowError
         else Inr (seconds * 1000000))"

text \<open>
  \<^verbatim>\<open>datetime + timedelta\<close> raises \<^verbatim>\<open>OverflowError\<close> ("date value out of range") when
  the sum leaves the range of \<^verbatim>\<open>datetime\<close>.
\<close>

definition datetime_add :: "datetime \<Rightarrow> int \<Rightarrow> exn + datetime" where
  "datetime_add t delta =
     (if valid_datetime (t + delta) then Inr (t + delta) else Inl OverflowError)"

subsection \<open>The jobs table\<close>

text \<open>
  One row of \<^verbatim>\<open>jobs\<close> (\<^verbatim>\<open>db.py\<close>, \<^verbatim>\<open>init_db\<close>). \<open>attempts\<close> is only ever written as
  \<open>0\<close> or as a stored value plus one, so it is a natural number; \<open>max_attempts\<close> is
  whatever integer the caller passed. \<open>last_error\<close> is the only nullable column.
  The integers a caller passes (\<open>max_attempts\<close> to \<^verbatim>\<open>enqueue_job\<close>, the id to
  \<^verbatim>\<open>get_job\<close>) are Python's and are checked against the range of an SQLite
  \<^verbatim>\<open>INTEGER\<close> where they are bound; the ids and counts read back from the table are
  within it.
\<close>

record job =
  job_id :: int
  job_type :: string
  payload :: string
  status :: string
  attempts :: nat
  max_attempts :: int
  available_at :: datetime
  last_error :: "string option"
  created_at :: datetime
  updated_at :: datetime

type_synonym jobs = "job list"

text \<open>
  The values the \<^verbatim>\<open>sqlite3\<close> module can bind to a parameter of a statement as an
  \<^verbatim>\<open>INTEGER\<close>; for any other Python integer the \<^verbatim>\<open>execute\<close> call raises
  \<^verbatim>\<open>OverflowError\<close> before the statement runs.
\<close>

definition sqlite_integer :: "int \<Rightarrow> bool" where
  "sqlite_integer i = (- (2 ^ 63) \<le> i \<and> i < 2 ^ 63)"

text \<open>
  \<^verbatim>\<open>INTEGER PRIMARY KEY AUTOINCREMENT\<close>: the new rowid is one more than the largest
  rowid the table has held; no row is ever deleted, so that is the largest one present,
  and 1 in an empty table. Once the largest rowid is \<open>2^63 - 1\<close> the insert fails
  (\<^verbatim>\<open>SQLITE_FULL\<close>, an \<^verbatim>\<open>OperationalError\<close>).
\<close>

definition lastrowid :: "jobs \<Rightarrow> int" where
  "lastrowid rows = fold max (map job_id rows) 0 + 1"

text \<open>\<^verbatim>\<open>UPDATE jobs SET ... WHERE id = ?\<close>\<close>

definition sql_update :: "int \<Rightarrow> (job \<Rightarrow> job) \<Rightarrow> jobs \<Rightarrow> jobs" where
  "sql_update i f rows = map (\<lambda>r. if job_id r = i then f r else r) rows"

text \<open>Python's \<^verbatim>\<open>str\<close> of an integer, for the f-strings of the error messages.\<close>

fun str_nat :: "nat \<Rightarrow> string" where
  "str_nat n =
     (if n < 10 then [''0123456789'' ! n]
      else str_nat (n div 10) @ [''0123456789'' ! (n mod 10)])"

definition str_int :: "int \<Rightarrow> string" where
  "str_int i = (if i < 0 then CHR ''-'' # str_nat (nat (- i)) else str_nat (nat i))"

subsection \<open>job_store.py\<close>

text \<open>
  \<^verbatim>\<open>enqueue_job\<close>. \<^verbatim>\<open>json.dumps\<close> is the standard library's; it is the parameter
  \<open>json_dumps\<close>, \<open>None\<close> when it raises on a payload it cannot serialise. The clock is read
  for the default \<open>available_at\<close>, for \<open>created_at\<close> and for \<open>updated_at\<close>. The \<^verbatim>\<open>INSERT\<close>
  binds \<open>max_attempts\<close>; when it raises, nothing is stored.
\<close>

definition enqueue_job ::
  "('p \<Rightarrow> string option) \<Rightarrow> jobs \<Rightarrow> string \<Rightarrow> 'p \<Rightarrow> int \<Rightarrow> datetime option \<Rightarrow>
   datetime \<Rightarrow> datetime \<Rightarrow> datetime \<Rightarrow> (exn + int) \<times> jobs" where
  "enqueue_job json_dumps rows jtype pl max_att avail utcnow now1 now2 =
     (let available = (case avail of None \<Rightarrow> utcnow | Some t \<Rightarrow> t)
      in case json_dumps pl of
           None \<Rightarrow> (Inl TypeError, rows)
         | Some payload_str \<Rightarrow>
             if \<not> sqlite_integer max_att then (Inl OverflowError, rows)
             else if \<not> sqlite_integer (lastrowid rows) then (Inl OperationalError, rows)
             else
               (Inr (lastrowid rows),
                rows @ [\<lparr>job_id = lastrowid rows, job_type = jtype, payload = payload_str,
                         status = ''pending'', attempts = 0, max_attempts = max_att,
                         available_at = available, last_error = None,
                         created_at = now1, updated_at = now2\<rparr>]))"

text \<open>
  \<^verbatim>\<open>SELECT * FROM jobs WHERE id = ?\<close> with \<^verbatim>\<open>fetchone()\<close>, for an id that has been
  bound: the row with that id, if there is one. The properties below also use it to
  read a row of a table.
\<close>

definition find_row :: "jobs \<Rightarrow> int \<Rightarrow> job option" where
  "find_row rows i = find (\<lambda>r. job_id r = i) rows"

text \<open>
  \<^verbatim>\<open>get_job\<close>: binding the id raises \<^verbatim>\<open>OverflowError\<close> when it is not an SQLite
  \<^verbatim>\<open>INTEGER\<close>; otherwise the result is the row or \<^verbatim>\<open>None\<close>.
\<close>

definition get_job :: "jobs \<Rightarrow> int \<Rightarrow> exn + job option" where
  "get_job rows i = (if sqlite_integer i then Inr (find_row rows i) else Inl OverflowError)"

text \<open>
  \<^verbatim>\<open>get_next_pending_job\<close>: the \<^verbatim>\<open>SELECT ... ORDER BY id LIMIT 1\<close>, then the
  \<^verbatim>\<open>UPDATE\<close> of the row it found. The row returned is the one read before the update.
\<close>

definition get_next_pending_job :: "jobs \<Rightarrow> datetime \<Rightarrow> datetime \<Rightarrow> job option \<times> jobs" where
  "get_next_pending_job rows now_iso now1 =
     (case sort_key job_id
             (filter (\<lambda>r. status r = ''pending'' \<and> available_at r \<le> now_iso) rows) of
        [] \<Rightarrow> (None, rows)
      | row # _ \<Rightarrow>
          (Some row,
           sql_update (job_id row) (\<lambda>r. r\<lparr>status := ''running'', updated_at := now1\<rparr>) rows))"

definition mark_job_completed :: "jobs \<Rightarrow> int \<Rightarrow> datetime \<Rightarrow> jobs" where
  "mark_job_completed rows i now1 =
     sql_update i (\<lambda>r. r\<lparr>status := ''completed'', updated_at := now1\<rparr>) rows"

definition move_job_to_dlq :: "jobs \<Rightarrow> int \<Rightarrow> string \<Rightarrow> datetime \<Rightarrow> jobs" where
  "move_job_to_dlq rows i error_message now1 =
     sql_update i
       (\<lambda>r. r\<lparr>status := ''dlq'', last_error := Some error_message, updated_at := now1\<rparr>) rows"

text \<open>
  \<^verbatim>\<open>handle_job_failure\<close>. The argument \<open>j\<close> is the dictionary the caller holds, not the
  stored row: the attempts and the limit are read from it, the row is found by its id.
  In the reschedule branch the delay and the new timestamp are computed before the
  connection is opened, so an \<^verbatim>\<open>OverflowError\<close> there leaves the table as it was.
\<close>

definition handle_job_failure ::
  "jobs \<Rightarrow> job \<Rightarrow> string \<Rightarrow> int \<Rightarrow> datetime \<Rightarrow> datetime \<Rightarrow> exn option \<times> jobs" where
  "handle_job_failure rows j error_message base_delay utcnow now1 =
     (let new_attempts = attempts j + 1
      in if max_attempts j \<le> int new_attempts then
           (None,
            sql_update (job_id j)
              (\<lambda>r. r\<lparr>status := ''dlq'', attempts := new_attempts,
                      last_error := Some error_message, updated_at := now1\<rparr>) rows)
         else
           (let delay_seconds = base_delay * 2 ^ (new_attempts - 1)
            in case timedelta delay_seconds of
                 Inl e \<Rightarrow> (Some e, rows)
               | Inr delta \<Rightarrow>
                   (case datetime_add utcnow delta of
                      Inl e \<Rightarrow> (Some e, rows)
                    | Inr next_available \<Rightarrow>
                        (None,
                         sql_update (job_id j)
                           (\<lambda>r. r\<lparr>status := ''pending'', attempts := new_attempts,
                                   available_at := next_available,
                                   last_error := Some error_message,
                                   updated_at := now1\<rparr>) rows))))"

text \<open>
  \<^verbatim>\<open>retry_dlq_job\<close>: an exception of \<^verbatim>\<open>get_job\<close> passes through; both rejections are a
  \<^verbatim>\<open>ValueError\<close>, told apart by the message.
\<close>

definition retry_dlq_job :: "jobs \<Rightarrow> int \<Rightarrow> datetime \<Rightarrow> datetime \<Rightarrow> exn option \<times> jobs" where
  "retry_dlq_job rows i utcnow now1 =
     (case get_job rows i of
        Inl e \<Rightarrow> (Some e, rows)
      | Inr None \<Rightarrow> (Some (ValueError (''Job #'' @ str_int i @ '' not found'')), rows)
      | Inr (Some j) \<Rightarrow>
          if status j \<noteq> ''dlq'' then
            (Some (ValueError (''Job #'' @ str_int i @ '' is not in DLQ (status=''
                                @ status j @ '')'')), rows)
          else
            (None,
             sql_update i
               (\<lambda>r. r\<lparr>status := ''pending'', attempts := 0, available_at := utcnow,
                       last_error := None, updated_at := now1\<rparr>) rows))"

subsection \<open>worker.py\<close>

text \<open>
  What one pass of the loop of \<^verbatim>\<open>run_worker\<close> does besides writing the table: its
  \<^verbatim>\<open>logger\<close> calls, in order, and the \<^verbatim>\<open>time.sleep\<close> of the idle branch.
  \<open>Executing\<close> is logged immediately before the handler is called and nowhere else.
\<close>

datatype event =
    Slept
  | Picked int string
  | Invalid_payload int
  | No_handler string
  | Executing int
  | Job_failed int string
  | Job_completed int

text \<open>
  \<^verbatim>\<open>json.loads\<close> is the standard library's and a parameter here. A call returns the
  decoded document, raises \<^verbatim>\<open>JSONDecodeError\<close>, or raises something else (a
  \<^verbatim>\<open>RecursionError\<close> on a text nested deeper than the interpreter's limit); the
  \<^verbatim>\<open>except\<close> clause of the loop names \<^verbatim>\<open>json.JSONDecodeError\<close> only.
\<close>

datatype 'p loaded = Loaded 'p | JSONDecodeError | Raised exn

text \<open>
  A handler is called with the decoded payload. It returns (\<open>None\<close>) or raises an
  \<^verbatim>\<open>Exception\<close>, given by the name of its class and its \<^verbatim>\<open>str\<close>. The registry
  \<^verbatim>\<open>handlers.HANDLERS\<close> is a parameter. An interrupt of the process
  (\<^verbatim>\<open>KeyboardInterrupt\<close>, which \<^verbatim>\<open>except Exception\<close> does not catch) is not an outcome
  of a handler here.
\<close>

type_synonym 'p handler = "'p \<Rightarrow> (string \<times> string) option"

text \<open>
  The body of the loop from \<^verbatim>\<open>job_id = job["id"]\<close> on, for the job that was claimed. An
  exception of \<^verbatim>\<open>json.loads\<close> other than \<^verbatim>\<open>JSONDecodeError\<close> leaves the body before
  anything is written.
\<close>

definition process_job ::
  "(string \<Rightarrow> 'p loaded) \<Rightarrow> (string \<rightharpoonup> 'p handler) \<Rightarrow> int \<Rightarrow> jobs \<Rightarrow> job \<Rightarrow>
   datetime \<Rightarrow> datetime \<Rightarrow> exn option \<times> event list \<times> jobs" where
  "process_job json_loads HANDLERS base_delay rows j utcnow now1 =
     (case json_loads (payload j) of
        Raised e \<Rightarrow> (Some e, [Picked (job_id j) (job_type j)], rows)
      | JSONDecodeError \<Rightarrow>
          (None, [Picked (job_id j) (job_type j), Invalid_payload (job_id j)],
           move_job_to_dlq rows (job_id j) ''Invalid JSON payload stored'' now1)
      | Loaded pl \<Rightarrow>
          (case HANDLERS (job_type j) of
             None \<Rightarrow>
               (None, [Picked (job_id j) (job_type j), No_handler (job_type j)],
                move_job_to_dlq rows (job_id j) (''Unknown job type: '' @ job_type j) now1)
           | Some handler \<Rightarrow>
               (case handler pl of
                  Some (cls, text) \<Rightarrow>
                    (let error_msg = cls @ '': '' @ text;
                         (e, rows') = handle_job_failure rows j error_msg base_delay utcnow now1
                     in (e, [Picked (job_id j) (job_type j), Executing (job_id j),
                             Job_failed (job_id j) error_msg], rows'))
                | None \<Rightarrow>
                    (None, [Picked (job_id j) (job_type j), Executing (job_id j),
                            Job_completed (job_id j)],
                     mark_job_completed rows (job_id j) now1))))"

text \<open>One pass of \<^verbatim>\<open>while True\<close>: the claim, then the idle sleep or the job.\<close>

definition worker_iteration ::
  "(string \<Rightarrow> 'p loaded) \<Rightarrow> (string \<rightharpoonup> 'p handler) \<Rightarrow> int \<Rightarrow> jobs \<Rightarrow>
   datetime \<Rightarrow> datetime \<Rightarrow> datetime \<Rightarrow> datetime \<Rightarrow> exn option \<times> event list \<times> jobs" where
  "worker_iteration json_loads HANDLERS base_delay rows now_iso now0 utcnow now1 =
     (case get_next_pending_job rows now_iso now0 of
        (None, rows') \<Rightarrow> (None, [Slept], rows')
      | (Some j, rows') \<Rightarrow> process_job json_loads HANDLERS base_delay rows' j utcnow now1)"

text \<open>
  \<^verbatim>\<open>run_worker\<close>, for as many passes as there are clock readings; the loop itself has no
  exit, it ends when an exception leaves the body or the process is interrupted.
\<close>

fun run_worker ::
  "(string \<Rightarrow> 'p loaded) \<Rightarrow> (string \<rightharpoonup> 'p handler) \<Rightarrow> int \<Rightarrow> jobs \<Rightarrow>
   (datetime \<times> datetime \<times> datetime \<times> datetime) list \<Rightarrow> exn option \<times> event list \<times> jobs" where
  "run_worker json_loads HANDLERS base_delay rows [] = (None, [], rows)"
| "run_worker json_loads HANDLERS base_delay rows ((now_iso, now0, utcnow, now1) # clock) =
     (case worker_iteration json_loads HANDLERS base_delay rows now_iso now0 utcnow now1 of
        (Some e, evs, rows') \<Rightarrow> (Some e, evs, rows')
      | (None, evs, rows') \<Rightarrow>
          (case run_worker json_loads HANDLERS base_delay rows' clock of
             (e, evs', rows'') \<Rightarrow> (e, evs @ evs', rows'')))"

subsection \<open>The frame of a transition, and sample rows\<close>

text \<open>
  \<open>frame i rows rows'\<close>: the table \<open>rows'\<close> has the rows of \<open>rows\<close> in the same order, each
  with its \<open>id\<close>, \<open>type\<close>, \<open>payload\<close>, \<open>max_attempts\<close> and \<open>created_at\<close>, and every row whose
  id is not \<open>i\<close> is the same row.
\<close>

definition frame :: "int \<Rightarrow> jobs \<Rightarrow> jobs \<Rightarrow> bool" where
  "frame i rows rows' =
     list_all2
       (\<lambda>r r'. job_id r' = job_id r \<and> job_type r' = job_type r \<and> payload r' = payload r \<and>
                max_attempts r' = max_attempts r \<and> created_at r' = created_at r \<and>
                (job_id r \<noteq> i \<longrightarrow> r' = r))
       rows rows'"

text \<open>
  A row as \<^verbatim>\<open>enqueue_job\<close> writes it for \<^verbatim>\<open>--type print_message --payload {}\<close>, with the
  given id, status, attempts and limit. 63800000000000000 microseconds is a day in
  the year 2022.
\<close>

definition demo_job :: "int \<Rightarrow> string \<Rightarrow> nat \<Rightarrow> int \<Rightarrow> job" where
  "demo_job i st a m =
     \<lparr>job_id = i, job_type = ''print_message'', payload = ''{}'', status = st,
      attempts = a, max_attempts = m, available_at = 63800000000000000, last_error = None,
      created_at = 63800000000000000, updated_at = 63800000000000000\<rparr>"

text \<open>
  Stand-ins for \<^verbatim>\<open>json.dumps\<close>, \<^verbatim>\<open>json.loads\<close> and \<^verbatim>\<open>handlers.HANDLERS\<close> in the
  examples. A payload is reduced to the truth value of \<^verbatim>\<open>payload.get("fail")\<close>, the one
  thing \<^verbatim>\<open>print_message_handler\<close> branches on. \<open>demo_loads\<close> is meant on four texts only:
  the two that \<open>demo_dumps\<close> writes, \<open>deep_payload\<close> (a thousand opening brackets, on
  which \<^verbatim>\<open>json.loads\<close> raises \<^verbatim>\<open>RecursionError\<close> under the default recursion limit of
  1000), and \<^verbatim>\<open>{not json\<close>, which is not JSON. The registry has the one entry of
  \<^verbatim>\<open>handlers.py\<close>.
\<close>

definition deep_payload :: string where
  "deep_payload = replicate 1000 (CHR ''['')"

definition demo_dumps :: "bool \<Rightarrow> string option" where
  "demo_dumps fail = Some (if fail then ''{\"fail\": true}'' else ''{}'')"

definition demo_loads :: "string \<Rightarrow> bool loaded" where
  "demo_loads s =
     (if s = ''{\"fail\": true}'' then Loaded True
      else if s = ''{}'' then Loaded False
      else if s = deep_payload then Raised RecursionError
      else JSONDecodeError)"

definition demo_handlers :: "string \<rightharpoonup> bool handler" where
  "demo_handlers =
     [''print_message'' \<mapsto>
        (\<lambda>fail. if fail then Some (''JobExecutionError'',
                                     ''Simulated failure in print_message_handler'')
                 else None)]"

definition failing_job :: "int \<Rightarrow> string \<Rightarrow> nat \<Rightarrow> int \<Rightarrow> job" where
  "failing_job i st a m = (demo_job i st a m)\<lparr>payload := ''{\"fail\": true}''\<rparr>"

subsection \<open>Reachable states\<close>

text \<open>
  A state of the system is the table together with the dictionaries that workers hold
  between their claim and the end of their pass. A step is one call of
  \<^verbatim>\<open>enqueue_job\<close>, \<^verbatim>\<open>get_next_pending_job\<close> or \<^verbatim>\<open>retry_dlq_job\<close>, or the rest of a
  worker's pass on the job it holds; each call is taken as a whole, calls of different
  processes interleave. A pass that ends in an exception ends its worker, whose job is
  no longer held.
\<close>

inductive reachable ::
  "('p \<Rightarrow> string option) \<Rightarrow> (string \<Rightarrow> 'p loaded) \<Rightarrow> (string \<rightharpoonup> 'p handler) \<Rightarrow>
   jobs \<times> job list \<Rightarrow> bool"
  for json_dumps :: "'p \<Rightarrow> string option" and json_loads :: "string \<Rightarrow> 'p loaded"
    and HANDLERS :: "string \<rightharpoonup> 'p handler" where
  init: "reachable json_dumps json_loads HANDLERS ([], [])"
| enqueue:
    "reachable json_dumps json_loads HANDLERS (rows, held) \<Longrightarrow>
     enqueue_job json_dumps rows jtype pl max_att avail utcnow now1 now2 = (res, rows') \<Longrightarrow>
     reachable json_dumps json_loads HANDLERS (rows', held)"
| claim:
    "reachable json_dumps json_loads HANDLERS (rows, held) \<Longrightarrow>
     get_next_pending_job rows now_iso now0 = (Some j, rows') \<Longrightarrow>
     reachable json_dumps json_loads HANDLERS (rows', j # held)"
| process:
    "reachable json_dumps json_loads HANDLERS (rows, held) \<Longrightarrow>
     j \<in> set held \<Longrightarrow>
     process_job json_loads HANDLERS base_delay rows j utcnow now1 = (e, evs, rows') \<Longrightarrow>
     reachable json_dumps json_loads HANDLERS (rows', remove1 j held)"
| retry:
    "reachable json_dumps json_loads HANDLERS (rows, held) \<Longrightarrow>
     retry_dlq_job rows i utcnow now1 = (e, rows') \<Longrightarrow>
     reachable json_dumps json_loads HANDLERS (rows', held)"

text \<open>
  What holds in every reachable state: ids are distinct in the table and among the held
  jobs; a row with a limit of at least one that is \<open>pending\<close> or \<open>running\<close> has attempts
  left; every held job has its row, which is \<open>running\<close> and agrees with it on
  \<open>attempts\<close> and \<open>max_attempts\<close>.
\<close>

definition sys_inv :: "jobs \<times> job list \<Rightarrow> bool" where
  "sys_inv s =
     (case s of (rows, held) \<Rightarrow>
        distinct (map job_id rows) \<and> distinct (map job_id held) \<and>
        (\<forall>r\<in>set rows. 1 \<le> max_attempts r \<longrightarrow>
             status r = ''pending'' \<or> status r = ''running'' \<longrightarrow>
             int (attempts r) < max_attempts r) \<and>
        (\<forall>h\<in>set held. \<exists>r\<in>set rows.
             job_id r = job_id h \<and> max_attempts r = max_attempts h \<and>
             attempts r = attempts h \<and> status r = ''running''))"

section \<open>Properties\<close>

subsection \<open>Rows and updates\<close>

lemma find_row_sql_update:
  "(\<And>r. job_id (f r) = job_id r) \<Longrightarrow>
   find_row (sql_update i f rows) k =
     map_option (\<lambda>r. if job_id r = i then f r else r) (find_row rows k)"
  by (induction rows) (auto simp: find_row_def sql_update_def)

lemma find_row_id: "find_row rows i = Some r \<Longrightarrow> job_id r = i"
  by (auto simp: find_row_def find_Some_iff)

lemma find_row_mem: "find_row rows i = Some r \<Longrightarrow> r \<in> set rows"
  by (auto simp: find_row_def find_Some_iff)

lemma find_row_distinct:
  "distinct (map job_id rows) \<Longrightarrow> r \<in> set rows \<Longrightarrow> find_row rows (job_id r) = Some r"
  by (induction rows) (auto simp: find_row_def)

lemma distinct_ids_eq:
  "distinct (map job_id rows) \<Longrightarrow> r \<in> set rows \<Longrightarrow> j \<in> set rows \<Longrightarrow>
   job_id r = job_id j \<Longrightarrow> r = j"
  by (meson distinct_map inj_onD)

lemma frame_refl: "frame i rows rows"
  by (simp add: frame_def list_all2_same)

lemma frame_sql_update:
  "(\<And>r. job_id (f r) = job_id r \<and> job_type (f r) = job_type r \<and> payload (f r) = payload r \<and>
         max_attempts (f r) = max_attempts r \<and> created_at (f r) = created_at r) \<Longrightarrow>
   frame i rows (sql_update i f rows)"
  by (simp add: frame_def sql_update_def list_all2_map2 list_all2_same)

lemma at_most_one_changed:
  "distinct (map job_id rows) \<Longrightarrow> frame i rows rows' \<Longrightarrow>
   length (filter (\<lambda>(r, r'). r' \<noteq> r) (zip rows rows')) \<le> 1"
proof (induction rows arbitrary: rows')
  case Nil
  then show ?case by simp
next
  case (Cons a rows)
  then obtain a' rs' where r': "rows' = a' # rs'"
    by (auto simp: frame_def list_all2_Cons1)
  from Cons.prems r' have fr: "frame i rows rs'" and d: "distinct (map job_id rows)"
    by (auto simp: frame_def)
  show ?case
  proof (cases "a' = a")
    case True
    with Cons.IH[OF d fr] r' show ?thesis by simp
  next
    case False
    with Cons.prems r' have ai: "job_id a = i" by (auto simp: frame_def)
    from Cons.prems(1) ai have "\<forall>r\<in>set rows. job_id r \<noteq> i" by (force simp: image_iff)
    with fr have "filter (\<lambda>(r, r'). r' \<noteq> r) (zip rows rs') = []"
      by (auto simp: frame_def filter_empty_conv list_all2_conv_all_nth in_set_zip)
    with r' False show ?thesis by simp
  qed
qed

lemma sort_key_head:
  assumes "sort_key f xs = y # ys"
  shows "y \<in> set xs \<and> (\<forall>x\<in>set xs. f y \<le> f x)"
proof -
  have "set (sort_key f xs) = set xs" by simp
  with assms have m: "y \<in> set xs" and s: "set xs = insert y (set ys)" by auto
  have "sorted (map f (sort_key f xs))" by (rule sorted_sort_key)
  with assms have "\<forall>x\<in>set ys. f y \<le> f x" by simp
  with m s show ?thesis by auto
qed

lemma in_set_sql_update:
  "r' \<in> set (sql_update i f rows) \<longleftrightarrow> (\<exists>r\<in>set rows. r' = (if job_id r = i then f r else r))"
  unfolding sql_update_def set_map image_iff by (rule refl)

lemma map_job_id_sql_update:
  "(\<And>r. job_id (f r) = job_id r) \<Longrightarrow> map job_id (sql_update i f rows) = map job_id rows"
  by (simp add: sql_update_def)

lemma fold_max_ge: "(a::int) \<le> fold max xs a"
  by (induction xs arbitrary: a) (auto intro: order_trans[OF max.cobounded2])

lemma fold_max_mem: "x \<in> set xs \<Longrightarrow> (x::int) \<le> fold max xs a"
proof (induction xs arbitrary: a)
  case Nil
  then show ?case by simp
next
  case (Cons y ys)
  show ?case
  proof (cases "x = y")
    case True
    have "max y a \<le> fold max ys (max y a)" by (rule fold_max_ge)
    with True show ?thesis by simp
  next
    case False
    with Cons show ?thesis by simp
  qed
qed

lemma lastrowid_fresh: "r \<in> set rows \<Longrightarrow> job_id r < lastrowid rows"
  using fold_max_mem[of "job_id r" "map job_id rows" 0] by (simp add: lastrowid_def)

lemma sql_update_id: "sql_update i (\<lambda>r. r) rows = rows"
  by (simp add: sql_update_def)

lemma claim_row:
  assumes "distinct (map job_id rows)"
    and "get_next_pending_job rows now_iso now0 = (Some j, rows1)"
  shows "j \<in> set rows" "status j = ''pending''" "available_at j \<le> now_iso"
    "rows1 = sql_update (job_id j) (\<lambda>r. r\<lparr>status := ''running'', updated_at := now0\<rparr>) rows"
    "find_row rows1 (job_id j) = Some (j\<lparr>status := ''running'', updated_at := now0\<rparr>)"
proof -
  from assms(2) obtain js where
    sk: "sort_key job_id (filter (\<lambda>r. status r = ''pending'' \<and> available_at r \<le> now_iso) rows) = j # js"
    and r1: "rows1 = sql_update (job_id j) (\<lambda>r. r\<lparr>status := ''running'', updated_at := now0\<rparr>) rows"
    by (auto simp: get_next_pending_job_def split: list.splits)
  from sort_key_head[OF sk] show j: "j \<in> set rows" and "status j = ''pending''"
    and "available_at j \<le> now_iso" by auto
  from r1 show "rows1 = sql_update (job_id j) (\<lambda>r. r\<lparr>status := ''running'', updated_at := now0\<rparr>) rows" .
  from find_row_distinct[OF assms(1) j] r1
  show "find_row rows1 (job_id j) = Some (j\<lparr>status := ''running'', updated_at := now0\<rparr>)"
    by (simp add: find_row_sql_update)
qed

subsection \<open>Backoff timestamps\<close>

lemma timedelta_ok:
  assumes "valid_datetime t" "valid_datetime (t + 1000000 * s)"
  shows "timedelta s = Inr (1000000 * s)"
proof -
  from assms have "- MAXDATETIME \<le> 1000000 * s" "1000000 * s \<le> MAXDATETIME"
    by (auto simp: valid_datetime_def)
  then have "- 315537897600 \<le> s" "s \<le> 315537897600"
    by (auto simp: MAXDATETIME_def)
  then have "(- 315537897600) div 86400 \<le> s div 86400" "s div 86400 \<le> 315537897600 div 86400"
    by (auto intro: zdiv_mono1)
  then have "- 999999999 \<le> s div 86400" "s div 86400 \<le> 999999999"
    by simp_all
  then show ?thesis by (simp add: timedelta_def Let_def)
qed

lemma handle_job_failure_dlq:
  assumes "max_attempts j \<le> int (attempts j + 1)"
  shows "handle_job_failure rows j error_message base_delay utcnow now1 =
     (None, sql_update (job_id j)
        (\<lambda>r. r\<lparr>status := ''dlq'', attempts := attempts j + 1,
                last_error := Some error_message, updated_at := now1\<rparr>) rows)"
  unfolding handle_job_failure_def Let_def using assms by simp

lemma handle_job_failure_pending:
  assumes "int (attempts j + 1) < max_attempts j"
    and "valid_datetime utcnow"
    and "valid_datetime (utcnow + 1000000 * (base_delay * 2 ^ attempts j))"
  shows "handle_job_failure rows j error_message base_delay utcnow now1 =
     (None, sql_update (job_id j)
        (\<lambda>r. r\<lparr>status := ''pending'', attempts := attempts j + 1,
                available_at := utcnow + 1000000 * (base_delay * 2 ^ attempts j),
                last_error := Some error_message, updated_at := now1\<rparr>) rows)"
proof -
  from timedelta_ok[OF assms(2,3)]
  have td: "timedelta (base_delay * 2 ^ attempts j) = Inr (1000000 * (base_delay * 2 ^ attempts j))" .
  from assms(3) have da: "datetime_add utcnow (1000000 * (base_delay * 2 ^ attempts j))
      = Inr (utcnow + 1000000 * (base_delay * 2 ^ attempts j))"
    by (simp add: datetime_add_def)
  from assms(1) have nle: "\<not> max_attempts j \<le> int (attempts j + 1)" by simp
  show ?thesis
    unfolding handle_job_failure_def Let_def using nle td da by simp
qed

subsection \<open>Failure handling\<close>




subsection \<open>Retrying a dead-lettered job\<close>

text \<open>
  C4, as amended. For an id that is an SQLite \<^verbatim>\<open>INTEGER\<close>: \<^verbatim>\<open>retry_dlq_job\<close> on a row in
  \<open>dlq\<close> returns normally and leaves that row \<open>pending\<close> with \<open>attempts = 0\<close>,
  \<open>last_error = None\<close> and \<open>available_at\<close> the clock reading, every other id as it was; on
  a row not in \<open>dlq\<close> it raises the \<^verbatim>\<open>ValueError\<close> "is not in DLQ", on an id that no row
  has the \<^verbatim>\<open>ValueError\<close> "not found". For any other id it raises \<^verbatim>\<open>OverflowError\<close>.
  Whenever it raises, the table is the one it was given.
\<close>

theorem retry_dlq_job_spec:
  "(sqlite_integer i \<and> find_row rows i = Some j \<and> status j = ''dlq'' \<longrightarrow>
      fst (retry_dlq_job rows i utcnow now1) = None \<and>
      find_row (snd (retry_dlq_job rows i utcnow now1)) i =
        Some (j\<lparr>status := ''pending'', attempts := 0, available_at := utcnow,
                last_error := None, updated_at := now1\<rparr>) \<and>
      (\<forall>k. k \<noteq> i \<longrightarrow> find_row (snd (retry_dlq_job rows i utcnow now1)) k = find_row rows k)) \<and>
   (sqlite_integer i \<and> find_row rows i = Some j \<and> status j \<noteq> ''dlq'' \<longrightarrow>
      retry_dlq_job rows i utcnow now1 =
        (Some (ValueError (''Job #'' @ str_int i @ '' is not in DLQ (status='' @ status j @ '')'')),
         rows)) \<and>
   (sqlite_integer i \<and> find_row rows i = None \<longrightarrow>
      retry_dlq_job rows i utcnow now1 =
        (Some (ValueError (''Job #'' @ str_int i @ '' not found'')), rows)) \<and>
   (\<not> sqlite_integer i \<longrightarrow>
      retry_dlq_job rows i utcnow now1 = (Some OverflowError, rows))"
proof (intro conjI impI)
  assume a: "sqlite_integer i \<and> find_row rows i = Some j \<and> status j = ''dlq''"
  then have id: "job_id j = i" by (auto dest: find_row_id)
  from a show "fst (retry_dlq_job rows i utcnow now1) = None"
    by (simp add: retry_dlq_job_def get_job_def)
  from a id show "find_row (snd (retry_dlq_job rows i utcnow now1)) i =
        Some (j\<lparr>status := ''pending'', attempts := 0, available_at := utcnow,
                last_error := None, updated_at := now1\<rparr>)"
    by (simp add: retry_dlq_job_def get_job_def find_row_sql_update)
  from a show "\<forall>k. k \<noteq> i \<longrightarrow> find_row (snd (retry_dlq_job rows i utcnow now1)) k = find_row rows k"
    by (auto simp: retry_dlq_job_def get_job_def find_row_sql_update option.map_ident
                   map_option_case find_row_id split: option.splits)
next
  assume "sqlite_integer i \<and> find_row rows i = Some j \<and> status j \<noteq> ''dlq''"
  then show "retry_dlq_job rows i utcnow now1 =
        (Some (ValueError (''Job #'' @ str_int i @ '' is not in DLQ (status='' @ status j @ '')'')),
         rows)"
    by (simp add: retry_dlq_job_def get_job_def)
next
  assume "sqlite_integer i \<and> find_row rows i = None"
  then show "retry_dlq_job rows i utcnow now1 =
        (Some (ValueError (''Job #'' @ str_int i @ '' not found'')), rows)"
    by (simp add: retry_dlq_job_def get_job_def)
next
  assume "\<not> sqlite_integer i"
  then show "retry_dlq_job rows i utcnow now1 = (Some OverflowError, rows)"
    by (simp add: retry_dlq_job_def get_job_def)
qed

theorem retry_dlq_job_spec_witness:
  "(sqlite_integer 1 \<and>
    find_row [demo_job 1 ''dlq'' 3 3, demo_job 2 ''running'' 0 3] 1 = Some (demo_job 1 ''dlq'' 3 3) \<and>
    status (demo_job 1 ''dlq'' 3 3) = ''dlq'' \<and>
    retry_dlq_job [demo_job 1 ''dlq'' 3 3, demo_job 2 ''running'' 0 3] 1
        63800000000000005 63800000000000006
      = (None, [(demo_job 1 ''pending'' 0 3)\<lparr>available_at := 63800000000000005,
                  updated_at := 63800000000000006\<rparr>, demo_job 2 ''running'' 0 3])) \<and>
   (sqlite_integer 2 \<and>
    find_row [demo_job 1 ''dlq'' 3 3, demo_job 2 ''running'' 0 3] 2
      = Some (demo_job 2 ''running'' 0 3) \<and>
    status (demo_job 2 ''running'' 0 3) \<noteq> ''dlq'' \<and>
    retry_dlq_job [demo_job 1 ''dlq'' 3 3, demo_job 2 ''running'' 0 3] 2
        63800000000000005 63800000000000006
      = (Some (ValueError ''Job #2 is not in DLQ (status=running)''),
         [demo_job 1 ''dlq'' 3 3, demo_job 2 ''running'' 0 3])) \<and>
   (sqlite_integer 17 \<and>
    find_row [demo_job 1 ''dlq'' 3 3, demo_job 2 ''running'' 0 3] 17 = None \<and>
    retry_dlq_job [demo_job 1 ''dlq'' 3 3, demo_job 2 ''running'' 0 3] 17
        63800000000000005 63800000000000006
      = (Some (ValueError ''Job #17 not found''),
         [demo_job 1 ''dlq'' 3 3, demo_job 2 ''running'' 0 3])) \<and>
   (\<not> sqlite_integer (- 9223372036854775809) \<and>
    retry_dlq_job [demo_job 1 ''dlq'' 3 3, demo_job 2 ''running'' 0 3] (- 9223372036854775809)
        63800000000000005 63800000000000006
      = (Some OverflowError, [demo_job 1 ''dlq'' 3 3, demo_job 2 ''running'' 0 3]))"
proof -
  have h1: "sqlite_integer 1 \<and>
            find_row [demo_job 1 ''dlq'' 3 3, demo_job 2 ''running'' 0 3] 1
              = Some (demo_job 1 ''dlq'' 3 3) \<and> status (demo_job 1 ''dlq'' 3 3) = ''dlq''"
    by (simp add: find_row_def demo_job_def sqlite_integer_def)
  have h2: "sqlite_integer 2 \<and>
            find_row [demo_job 1 ''dlq'' 3 3, demo_job 2 ''running'' 0 3] 2
              = Some (demo_job 2 ''running'' 0 3) \<and> status (demo_job 2 ''running'' 0 3) \<noteq> ''dlq''"
    by (simp add: find_row_def demo_job_def sqlite_integer_def)
  have h3: "sqlite_integer 17 \<and>
            find_row [demo_job 1 ''dlq'' 3 3, demo_job 2 ''running'' 0 3] 17 = None"
    by (simp add: find_row_def demo_job_def sqlite_integer_def)
  have h4: "\<not> sqlite_integer (- 9223372036854775809)"
    by (simp add: sqlite_integer_def)
  have c2: "retry_dlq_job [demo_job 1 ''dlq'' 3 3, demo_job 2 ''running'' 0 3] 2
        63800000000000005 63800000000000006
      = (Some (ValueError (''Job #'' @ str_int 2 @ '' is not in DLQ (status=''
                            @ status (demo_job 2 ''running'' 0 3) @ '')'')),
         [demo_job 1 ''dlq'' 3 3, demo_job 2 ''running'' 0 3])"
    using retry_dlq_job_spec[of 2 "[demo_job 1 ''dlq'' 3 3, demo_job 2 ''running'' 0 3]"
            "demo_job 2 ''running'' 0 3" 63800000000000005 63800000000000006] h2
    by blast
  have c3: "retry_dlq_job [demo_job 1 ''dlq'' 3 3, demo_job 2 ''running'' 0 3] 17
        63800000000000005 63800000000000006
      = (Some (ValueError (''Job #'' @ str_int 17 @ '' not found'')),
         [demo_job 1 ''dlq'' 3 3, demo_job 2 ''running'' 0 3])"
    using retry_dlq_job_spec[of 17 "[demo_job 1 ''dlq'' 3 3, demo_job 2 ''running'' 0 3]"
            "demo_job 2 ''running'' 0 3" 63800000000000005 63800000000000006] h3
    by blast
  have c4: "retry_dlq_job [demo_job 1 ''dlq'' 3 3, demo_job 2 ''running'' 0 3]
        (- 9223372036854775809) 63800000000000005 63800000000000006
      = (Some OverflowError, [demo_job 1 ''dlq'' 3 3, demo_job 2 ''running'' 0 3])"
    using retry_dlq_job_spec[of "- 9223372036854775809"
            "[demo_job 1 ''dlq'' 3 3, demo_job 2 ''running'' 0 3]"
            "demo_job 2 ''running'' 0 3" 63800000000000005 63800000000000006] h4
    by blast
  have c1: "retry_dlq_job [demo_job 1 ''dlq'' 3 3, demo_job 2 ''running'' 0 3] 1
        63800000000000005 63800000000000006
      = (None, [(demo_job 1 ''pending'' 0 3)\<lparr>available_at := 63800000000000005,
                  updated_at := 63800000000000006\<rparr>, demo_job 2 ''running'' 0 3])"
    by (simp add: retry_dlq_job_def get_job_def sqlite_integer_def find_row_def demo_job_def
                  sql_update_def)
  from c2 have c2': "retry_dlq_job [demo_job 1 ''dlq'' 3 3, demo_job 2 ''running'' 0 3] 2
        63800000000000005 63800000000000006
      = (Some (ValueError ''Job #2 is not in DLQ (status=running)''),
         [demo_job 1 ''dlq'' 3 3, demo_job 2 ''running'' 0 3])"
    by (simp add: str_int_def demo_job_def)
  from c3 have c3': "retry_dlq_job [demo_job 1 ''dlq'' 3 3, demo_job 2 ''running'' 0 3] 17
        63800000000000005 63800000000000006
      = (Some (ValueError ''Job #17 not found''),
         [demo_job 1 ''dlq'' 3 3, demo_job 2 ''running'' 0 3])"
    by (simp add: str_int_def)
  from h1 h2 h3 h4 c1 c2' c3' c4 show ?thesis by blast
qed

text \<open>
  C4 as it is stated fails: \<open>2^63\<close> is an id that no row has, and \<^verbatim>\<open>retry_dlq_job\<close> does not
  raise the "not found" \<^verbatim>\<open>ValueError\<close> on it; \<^verbatim>\<open>get_job\<close> raises \<^verbatim>\<open>OverflowError\<close>
  when it binds the id (\<^verbatim>\<open>queuectl dlq retry 9223372036854775808\<close>).
\<close>

theorem retry_unbindable_id_counterexample:
  "find_row [demo_job 1 ''dlq'' 3 3, demo_job 2 ''running'' 0 3] 9223372036854775808 = None \<and>
   retry_dlq_job [demo_job 1 ''dlq'' 3 3, demo_job 2 ''running'' 0 3] 9223372036854775808
       63800000000000005 63800000000000006
     = (Some OverflowError, [demo_job 1 ''dlq'' 3 3, demo_job 2 ''running'' 0 3]) \<and>
   fst (retry_dlq_job [demo_job 1 ''dlq'' 3 3, demo_job 2 ''running'' 0 3] 9223372036854775808
          63800000000000005 63800000000000006)
     \<noteq> Some (ValueError ''Job #9223372036854775808 not found'')"
  by (simp add: retry_dlq_job_def get_job_def sqlite_integer_def find_row_def demo_job_def)

subsection \<open>Claiming the next job\<close>

text \<open>
  C6. On a table with distinct ids, \<^verbatim>\<open>get_next_pending_job\<close> evaluated at \<open>now_iso\<close>
  returns a row of the table that is \<open>pending\<close> with \<open>available_at \<le> now_iso\<close> and whose
  id is the least among such rows; the row returned is the row as it was, and the new
  table differs from the old one in that row alone, which is \<open>running\<close>. If no row is
  \<open>pending\<close> with \<open>available_at \<le> now_iso\<close>, it returns \<open>None\<close> and the table it was given.
\<close>

theorem get_next_pending_job_spec:
  assumes "distinct (map job_id rows)"
  shows "case get_next_pending_job rows now_iso now1 of
           (None, rows') \<Rightarrow>
             rows' = rows \<and>
             (\<forall>r\<in>set rows. \<not> (status r = ''pending'' \<and> available_at r \<le> now_iso))
         | (Some j, rows') \<Rightarrow>
             j \<in> set rows \<and> status j = ''pending'' \<and> available_at j \<le> now_iso \<and>
             (\<forall>r\<in>set rows. status r = ''pending'' \<and> available_at r \<le> now_iso
                  \<longrightarrow> job_id j \<le> job_id r) \<and>
             list_all2
               (\<lambda>r r'. r' = (if r = j then r\<lparr>status := ''running'', updated_at := now1\<rparr> else r))
               rows rows'"
proof (cases "sort_key job_id
                (filter (\<lambda>r. status r = ''pending'' \<and> available_at r \<le> now_iso) rows)")
  case Nil
  then have "set (filter (\<lambda>r. status r = ''pending'' \<and> available_at r \<le> now_iso) rows) = {}"
    using set_sort[of job_id "filter (\<lambda>r. status r = ''pending'' \<and> available_at r \<le> now_iso) rows"]
    by simp
  with Nil show ?thesis
    by (auto simp: get_next_pending_job_def filter_empty_conv)
next
  case (Cons j js)
  from sort_key_head[OF Cons]
  have j: "j \<in> set rows" "status j = ''pending''" "available_at j \<le> now_iso"
    and least: "\<forall>r\<in>set rows. status r = ''pending'' \<and> available_at r \<le> now_iso
                   \<longrightarrow> job_id j \<le> job_id r"
    by auto
  have "\<And>r. r \<in> set rows \<Longrightarrow> (job_id r = job_id j) = (r = j)"
    using assms j(1) by (auto dest: distinct_ids_eq)
  then have "sql_update (job_id j) (\<lambda>r. r\<lparr>status := ''running'', updated_at := now1\<rparr>) rows
           = map (\<lambda>r. if r = j then r\<lparr>status := ''running'', updated_at := now1\<rparr> else r) rows"
    by (simp add: sql_update_def)
  then have "list_all2
          (\<lambda>r r'. r' = (if r = j then r\<lparr>status := ''running'', updated_at := now1\<rparr> else r))
          rows (sql_update (job_id j) (\<lambda>r. r\<lparr>status := ''running'', updated_at := now1\<rparr>) rows)"
    by (simp add: list_all2_map2 list_all2_same)
  with Cons j least show ?thesis
    by (simp add: get_next_pending_job_def)
qed

theorem get_next_pending_job_spec_witness:
  "distinct (map job_id [demo_job 1 ''running'' 0 3, demo_job 2 ''pending'' 0 3,
                         demo_job 3 ''pending'' 0 3]) \<and>
   get_next_pending_job [demo_job 1 ''running'' 0 3, demo_job 2 ''pending'' 0 3,
                         demo_job 3 ''pending'' 0 3] 63800000000000007 63800000000000008
     = (Some (demo_job 2 ''pending'' 0 3),
        [demo_job 1 ''running'' 0 3,
         (demo_job 2 ''running'' 0 3)\<lparr>updated_at := 63800000000000008\<rparr>,
         demo_job 3 ''pending'' 0 3]) \<and>
   get_next_pending_job [demo_job 1 ''running'' 0 3, demo_job 2 ''pending'' 0 3,
                         demo_job 3 ''pending'' 0 3] 63799999999999999 63800000000000008
     = (None, [demo_job 1 ''running'' 0 3, demo_job 2 ''pending'' 0 3,
               demo_job 3 ''pending'' 0 3])"
proof -
  have h: "distinct (map job_id [demo_job 1 ''running'' 0 3, demo_job 2 ''pending'' 0 3,
                                 demo_job 3 ''pending'' 0 3])"
    by (simp add: demo_job_def)
  from get_next_pending_job_spec[OF h, of 63800000000000007 63800000000000008]
       get_next_pending_job_spec[OF h, of 63799999999999999 63800000000000008]
  show ?thesis using h
    by (simp add: get_next_pending_job_def demo_job_def sql_update_def)
qed

subsection \<open>What the transitions leave alone\<close>

text \<open>
  C10. \<^verbatim>\<open>mark_job_completed\<close>, \<^verbatim>\<open>move_job_to_dlq\<close> and \<^verbatim>\<open>handle_job_failure\<close> keep the
  rows and their order, keep \<open>id\<close>, \<open>type\<close>, \<open>payload\<close>, \<open>max_attempts\<close> and \<open>created_at\<close> of
  every row, and leave every row with another id as it was; on a table with distinct
  ids at most one row is changed.
\<close>

theorem transitions_frame:
  "frame i rows (mark_job_completed rows i now1) \<and>
   frame i rows (move_job_to_dlq rows i error_message now1) \<and>
   frame (job_id j) rows (snd (handle_job_failure rows j error_message base_delay utcnow now1)) \<and>
   (distinct (map job_id rows) \<longrightarrow>
      length (filter (\<lambda>(r, r'). r' \<noteq> r) (zip rows (mark_job_completed rows i now1))) \<le> 1 \<and>
      length (filter (\<lambda>(r, r'). r' \<noteq> r)
                (zip rows (move_job_to_dlq rows i error_message now1))) \<le> 1 \<and>
      length (filter (\<lambda>(r, r'). r' \<noteq> r)
                (zip rows (snd (handle_job_failure rows j error_message base_delay utcnow now1))))
        \<le> 1)"
proof -
  have 1: "frame i rows (mark_job_completed rows i now1)"
    by (simp add: mark_job_completed_def frame_sql_update)
  have 2: "frame i rows (move_job_to_dlq rows i error_message now1)"
    by (simp add: move_job_to_dlq_def frame_sql_update)
  have 3: "frame (job_id j) rows
             (snd (handle_job_failure rows j error_message base_delay utcnow now1))"
    by (simp add: handle_job_failure_def Let_def frame_sql_update frame_refl split: sum.splits)
  from 1 2 3 show ?thesis using at_most_one_changed by blast
qed

theorem transitions_frame_witness:
  "distinct (map job_id [demo_job 1 ''running'' 0 3, demo_job 2 ''pending'' 0 3]) \<and>
   job_id (demo_job 2 ''pending'' 0 3) \<noteq> 1 \<and>
   frame 1 [demo_job 1 ''running'' 0 3, demo_job 2 ''pending'' 0 3]
     (mark_job_completed [demo_job 1 ''running'' 0 3, demo_job 2 ''pending'' 0 3] 1
        63800000000000009) \<and>
   mark_job_completed [demo_job 1 ''running'' 0 3, demo_job 2 ''pending'' 0 3] 1
        63800000000000009
     = [(demo_job 1 ''completed'' 0 3)\<lparr>updated_at := 63800000000000009\<rparr>,
        demo_job 2 ''pending'' 0 3] \<and>
   move_job_to_dlq [demo_job 1 ''running'' 0 3, demo_job 2 ''pending'' 0 3] 1
        ''E: x'' 63800000000000009
     = [(demo_job 1 ''dlq'' 0 3)\<lparr>last_error := Some ''E: x'',
           updated_at := 63800000000000009\<rparr>,
        demo_job 2 ''pending'' 0 3] \<and>
   snd (handle_job_failure [demo_job 1 ''running'' 0 3, demo_job 2 ''pending'' 0 3]
          (demo_job 1 ''pending'' 0 3) ''E: x'' 5 63800000000000000 63800000000000009)
     = [(demo_job 1 ''pending'' 1 3)\<lparr>available_at := 63800000005000000,
           last_error := Some ''E: x'', updated_at := 63800000000000009\<rparr>,
        demo_job 2 ''pending'' 0 3]"
proof -
  have h: "distinct (map job_id [demo_job 1 ''running'' 0 3, demo_job 2 ''pending'' 0 3])"
    by (simp add: demo_job_def)
  from transitions_frame[of 1 "[demo_job 1 ''running'' 0 3, demo_job 2 ''pending'' 0 3]"
         63800000000000009 "''E: x''" "demo_job 1 ''pending'' 0 3" 5 63800000000000000]
  show ?thesis using h
    by (simp add: mark_job_completed_def move_job_to_dlq_def handle_job_failure_def
          timedelta_def datetime_add_def valid_datetime_def MAXDATETIME_def
          sql_update_def demo_job_def)
qed

subsection \<open>One pass of the worker\<close>


lemma process_job_cases:
  assumes "process_job json_loads HANDLERS base_delay rows j utcnow now1 = (e, evs, rows')"
  obtains
    (undecoded) err where "json_loads (payload j) = Raised err" "e = Some err"
      "evs = [Picked (job_id j) (job_type j)]" "rows' = rows"
  | (invalid) "json_loads (payload j) = JSONDecodeError" "e = None"
      "evs = [Picked (job_id j) (job_type j), Invalid_payload (job_id j)]"
      "rows' = sql_update (job_id j)
         (\<lambda>r. r\<lparr>status := ''dlq'', last_error := Some ''Invalid JSON payload stored'',
                 updated_at := now1\<rparr>) rows"
  | (unknown) pl where "json_loads (payload j) = Loaded pl" "HANDLERS (job_type j) = None"
      "e = None"
      "evs = [Picked (job_id j) (job_type j), No_handler (job_type j)]"
      "rows' = sql_update (job_id j)
         (\<lambda>r. r\<lparr>status := ''dlq'', last_error := Some (''Unknown job type: '' @ job_type j),
                 updated_at := now1\<rparr>) rows"
  | (completed) "e = None"
      "evs = [Picked (job_id j) (job_type j), Executing (job_id j), Job_completed (job_id j)]"
      "rows' = sql_update (job_id j) (\<lambda>r. r\<lparr>status := ''completed'', updated_at := now1\<rparr>) rows"
  | (exhausted) msg where "max_attempts j \<le> int (attempts j + 1)" "e = None"
      "evs = [Picked (job_id j) (job_type j), Executing (job_id j), Job_failed (job_id j) msg]"
      "rows' = sql_update (job_id j)
         (\<lambda>r. r\<lparr>status := ''dlq'', attempts := attempts j + 1, last_error := Some msg,
                 updated_at := now1\<rparr>) rows"
  | (rescheduled) msg t where "int (attempts j + 1) < max_attempts j" "e = None"
      "evs = [Picked (job_id j) (job_type j), Executing (job_id j), Job_failed (job_id j) msg]"
      "rows' = sql_update (job_id j)
         (\<lambda>r. r\<lparr>status := ''pending'', attempts := attempts j + 1, available_at := t,
                 last_error := Some msg, updated_at := now1\<rparr>) rows"
  | (crashed) msg err where "int (attempts j + 1) < max_attempts j" "e = Some err"
      "evs = [Picked (job_id j) (job_type j), Executing (job_id j), Job_failed (job_id j) msg]"
      "rows' = rows"
proof (cases "json_loads (payload j)")
  case (Raised err)
  with assms show thesis
    by (intro undecoded[where err = err]) (simp_all add: process_job_def)
next
  case JSONDecodeError
  with assms show thesis
    by (intro invalid) (simp_all add: process_job_def move_job_to_dlq_def)
next
  case (Loaded pl)
  note pl = this
  show thesis
  proof (cases "HANDLERS (job_type j)")
    case None
    with pl assms show thesis
      by (intro unknown[where pl = pl]) (simp_all add: process_job_def move_job_to_dlq_def)
  next
    case (Some handler)
    note h = this
    show thesis
    proof (cases "handler pl")
      case None
      with pl h assms show thesis
        by (intro completed) (simp_all add: process_job_def mark_job_completed_def)
    next
      case (Some ex)
      obtain cls what where ex: "ex = (cls, what)" by (cases ex)
      have "process_job json_loads HANDLERS base_delay rows j utcnow now1 =
            (fst (handle_job_failure rows j (cls @ '': '' @ what) base_delay utcnow now1),
             [Picked (job_id j) (job_type j), Executing (job_id j),
              Job_failed (job_id j) (cls @ '': '' @ what)],
             snd (handle_job_failure rows j (cls @ '': '' @ what) base_delay utcnow now1))"
        using pl h Some ex by (simp add: process_job_def Let_def split_beta)
      with assms
      have e: "e = fst (handle_job_failure rows j (cls @ '': '' @ what) base_delay utcnow now1)"
        and evs: "evs = [Picked (job_id j) (job_type j), Executing (job_id j),
                         Job_failed (job_id j) (cls @ '': '' @ what)]"
        and r': "rows' = snd (handle_job_failure rows j (cls @ '': '' @ what) base_delay utcnow now1)"
        by simp_all
      show thesis
      proof (cases "max_attempts j \<le> int (attempts j + 1)")
        case True
        from e r' evs handle_job_failure_dlq[OF True] True show thesis
          by (intro exhausted[where msg="cls @ '': '' @ what"]) simp_all
      next
        case False
        then have nle: "int (attempts j + 1) < max_attempts j" by simp
        show thesis
        proof (cases "timedelta (base_delay * 2 ^ (attempts j + 1 - 1))")
          case (Inl err)
          with False have "handle_job_failure rows j (cls @ '': '' @ what) base_delay utcnow now1
               = (Some err, rows)"
            by (simp add: handle_job_failure_def Let_def)
          with e r' evs nle show thesis
            by (intro crashed[where msg="cls @ '': '' @ what" and err=err]) simp_all
        next
          case (Inr delta)
          note td = this
          show thesis
          proof (cases "datetime_add utcnow delta")
            case (Inl err)
            with False td have "handle_job_failure rows j (cls @ '': '' @ what) base_delay utcnow now1
                 = (Some err, rows)"
              by (simp add: handle_job_failure_def Let_def)
            with e r' evs nle show thesis
              by (intro crashed[where msg="cls @ '': '' @ what" and err=err]) simp_all
          next
            case (Inr t)
            with False td have "handle_job_failure rows j (cls @ '': '' @ what) base_delay utcnow now1
                 = (None, sql_update (job_id j)
                     (\<lambda>r. r\<lparr>status := ''pending'', attempts := attempts j + 1,
                        available_at := t, last_error := Some (cls @ '': '' @ what),
                        updated_at := now1\<rparr>) rows)"
              by (simp add: handle_job_failure_def Let_def)
            with e r' evs nle show thesis
              by (intro rescheduled[where msg="cls @ '': '' @ what" and t=t]) simp_all
          qed
        qed
      qed
    qed
  qed
qed

lemma process_job_rows:
  assumes "process_job json_loads HANDLERS base_delay rows j utcnow now1 = (e, evs, rows')"
  obtains f where "rows' = sql_update (job_id j) f rows"
    and "\<And>r. job_id (f r) = job_id r \<and> max_attempts (f r) = max_attempts r"
    and "\<And>r. f r = r \<or> status (f r) = ''dlq'' \<or> status (f r) = ''completed'' \<or>
              (status (f r) = ''pending'' \<and> int (attempts (f r)) < max_attempts j)"
  using assms
proof (cases rule: process_job_cases)
  case (undecoded err)
  then have "rows' = sql_update (job_id j) (\<lambda>r. r) rows" by (simp add: sql_update_id)
  then show ?thesis by (rule that) simp_all
next
  case invalid
  from invalid(4) show ?thesis by (rule that) simp_all
next
  case (unknown pl)
  from unknown(5) show ?thesis by (rule that) simp_all
next
  case completed
  from completed(3) show ?thesis by (rule that) simp_all
next
  case (exhausted msg)
  from exhausted(4) show ?thesis by (rule that) simp_all
next
  case (rescheduled msg t)
  from rescheduled(4) show ?thesis by (rule that) (use rescheduled(1) in simp_all)
next
  case (crashed msg err)
  then have "rows' = sql_update (job_id j) (\<lambda>r. r) rows" by (simp add: sql_update_id)
  then show ?thesis by (rule that) simp_all
qed




text \<open>
  When \<^verbatim>\<open>json.loads\<close> raises nothing but \<^verbatim>\<open>JSONDecodeError\<close> on the payload, and the clock
  reading and the backoff timestamp are values of \<^verbatim>\<open>datetime\<close>, a pass that claims a job
  ends normally with the row \<open>completed\<close>, \<open>pending\<close> or \<open>dlq\<close>.
\<close>

lemma worker_iteration_resolves:
  assumes "distinct (map job_id rows)"
    and "get_next_pending_job rows now_iso now0 = (Some j, rows1)"
    and "valid_datetime utcnow"
    and "valid_datetime (utcnow + 1000000 * (base_delay * 2 ^ attempts j))"
    and "\<And>err. json_loads (payload j) \<noteq> Raised err"
  shows "case worker_iteration json_loads HANDLERS base_delay rows now_iso now0 utcnow now1 of
           (e, evs, rows') \<Rightarrow>
             e = None \<and>
             (case find_row rows' (job_id j) of
                None \<Rightarrow> False
              | Some r' \<Rightarrow> status r' = ''completed'' \<or> status r' = ''pending'' \<or> status r' = ''dlq'')"
proof -
  note c = claim_row[OF assms(1,2)]
  from c(5) have id: "job_id (j\<lparr>status := ''running'', updated_at := now0\<rparr>) = job_id j" by simp
  have hf: "\<And>msg. fst (handle_job_failure rows1 j msg base_delay utcnow now1) = None \<and>
         (case find_row (snd (handle_job_failure rows1 j msg base_delay utcnow now1)) (job_id j) of
            None \<Rightarrow> False
          | Some r' \<Rightarrow> status r' = ''completed'' \<or> status r' = ''pending'' \<or> status r' = ''dlq'')"
  proof -
    fix msg
    show "fst (handle_job_failure rows1 j msg base_delay utcnow now1) = None \<and>
         (case find_row (snd (handle_job_failure rows1 j msg base_delay utcnow now1)) (job_id j) of
            None \<Rightarrow> False
          | Some r' \<Rightarrow> status r' = ''completed'' \<or> status r' = ''pending'' \<or> status r' = ''dlq'')"
    proof (cases "int (attempts j + 1) < max_attempts j")
      case True
      from handle_job_failure_pending[OF True assms(3,4)] c(5) show ?thesis
        by (simp add: find_row_sql_update)
    next
      case False
      then have "max_attempts j \<le> int (attempts j + 1)" by simp
      from handle_job_failure_dlq[OF this] c(5) show ?thesis
        by (simp add: find_row_sql_update)
    qed
  qed
  show ?thesis
  proof (cases "json_loads (payload j)")
    case (Raised err)
    with assms(5)[of err] show ?thesis by simp
  next
    case JSONDecodeError
    then show ?thesis using assms(2) c(5)
      by (simp add: worker_iteration_def process_job_def move_job_to_dlq_def find_row_sql_update)
  next
    case (Loaded pl)
    note pl = this
    show ?thesis
    proof (cases "HANDLERS (job_type j)")
      case None
      with pl show ?thesis using assms(2) c(5)
        by (simp add: worker_iteration_def process_job_def move_job_to_dlq_def find_row_sql_update)
    next
      case (Some handler)
      note h = this
      show ?thesis
      proof (cases "handler pl")
        case None
        with pl h show ?thesis using assms(2) c(5)
          by (simp add: worker_iteration_def process_job_def mark_job_completed_def find_row_sql_update)
      next
        case (Some ex)
        obtain cls what where ex: "ex = (cls, what)" by (cases ex)
        from hf[of "cls @ '': '' @ what"] pl h Some ex show ?thesis using assms(2)
          by (simp add: worker_iteration_def process_job_def split_beta Let_def)
      qed
    qed
  qed
qed

text \<open>
  C7 fails on the code. A worker started with base delay \<open>10^15\<close> claims a job that has
  attempts left; the handler raises; \<^verbatim>\<open>handle_job_failure\<close> raises \<^verbatim>\<open>OverflowError\<close>
  inside the \<^verbatim>\<open>except\<close> block. The exception leaves \<^verbatim>\<open>run_worker\<close>, no second pass is
  made, and the row stays \<open>running\<close>.
\<close>

theorem worker_overflow_leaves_running:
  "worker_iteration demo_loads demo_handlers 1000000000000000 [failing_job 1 ''pending'' 0 5]
      63800000000000001 63800000000000002 63800000000000003 63800000000000004
   = (Some OverflowError,
      [Picked 1 ''print_message'', Executing 1,
       Job_failed 1 ''JobExecutionError: Simulated failure in print_message_handler''],
      [(failing_job 1 ''running'' 0 5)\<lparr>updated_at := 63800000000000002\<rparr>]) \<and>
   run_worker demo_loads demo_handlers 1000000000000000 [failing_job 1 ''pending'' 0 5]
      [(63800000000000001, 63800000000000002, 63800000000000003, 63800000000000004),
       (63800000000000005, 63800000000000006, 63800000000000007, 63800000000000008)]
   = (Some OverflowError,
      [Picked 1 ''print_message'', Executing 1,
       Job_failed 1 ''JobExecutionError: Simulated failure in print_message_handler''],
      [(failing_job 1 ''running'' 0 5)\<lparr>updated_at := 63800000000000002\<rparr>]) \<and>
   status ((failing_job 1 ''running'' 0 5)\<lparr>updated_at := 63800000000000002\<rparr>) = ''running''"
proof -
  have "worker_iteration demo_loads demo_handlers 1000000000000000 [failing_job 1 ''pending'' 0 5]
      63800000000000001 63800000000000002 63800000000000003 63800000000000004
   = (Some OverflowError,
      [Picked 1 ''print_message'', Executing 1,
       Job_failed 1 ''JobExecutionError: Simulated failure in print_message_handler''],
      [(failing_job 1 ''running'' 0 5)\<lparr>updated_at := 63800000000000002\<rparr>])"
    by (simp add: worker_iteration_def get_next_pending_job_def process_job_def demo_loads_def
        demo_handlers_def handle_job_failure_def timedelta_def sql_update_def failing_job_def
        demo_job_def Let_def)
  then show ?thesis by (simp add: failing_job_def demo_job_def)
qed

subsection \<open>Invariants of the reachable states\<close>

lemma sys_inv_update:
  assumes inv: "sys_inv (rows, held)"
    and f: "\<And>r. job_id (f r) = job_id r \<and> max_attempts (f r) = max_attempts r"
    and ok: "\<And>r. r \<in> set rows \<Longrightarrow> job_id r = i \<Longrightarrow> 1 \<le> max_attempts r \<Longrightarrow>
               status (f r) = ''pending'' \<or> status (f r) = ''running'' \<Longrightarrow>
               int (attempts (f r)) < max_attempts r"
    and held: "\<And>h. h \<in> set held' \<Longrightarrow>
               (h \<in> set held \<and> job_id h \<noteq> i) \<or>
               (\<exists>r\<in>set rows. job_id r = i \<and> job_id h = i \<and> max_attempts r = max_attempts h \<and>
                   attempts (f r) = attempts h \<and> status (f r) = ''running'')"
    and dh: "distinct (map job_id held')"
  shows "sys_inv (sql_update i f rows, held')"
proof -
  from inv have d: "distinct (map job_id rows)"
    and i2: "\<And>r. r \<in> set rows \<Longrightarrow> 1 \<le> max_attempts r \<Longrightarrow>
             status r = ''pending'' \<or> status r = ''running'' \<Longrightarrow> int (attempts r) < max_attempts r"
    and i3: "\<And>h. h \<in> set held \<Longrightarrow> \<exists>r\<in>set rows.
             job_id r = job_id h \<and> max_attempts r = max_attempts h \<and>
             attempts r = attempts h \<and> status r = ''running''"
    by (auto simp: sys_inv_def)
  have 1: "distinct (map job_id (sql_update i f rows))"
    using d f by (simp add: map_job_id_sql_update)
  have 2: "\<forall>r'\<in>set (sql_update i f rows). 1 \<le> max_attempts r' \<longrightarrow>
             status r' = ''pending'' \<or> status r' = ''running'' \<longrightarrow>
             int (attempts r') < max_attempts r'"
  proof (intro ballI impI)
    fix r' assume r': "r' \<in> set (sql_update i f rows)" and m: "1 \<le> max_attempts r'"
      and st: "status r' = ''pending'' \<or> status r' = ''running''"
    from r' obtain r where r: "r \<in> set rows" "r' = (if job_id r = i then f r else r)"
      by (auto simp: in_set_sql_update)
    show "int (attempts r') < max_attempts r'"
    proof (cases "job_id r = i")
      case True
      with r m st f ok[OF r(1) True] show ?thesis by simp
    next
      case False
      with r m st i2[OF r(1)] show ?thesis by simp
    qed
  qed
  have 3: "\<forall>h\<in>set held'. \<exists>r\<in>set (sql_update i f rows).
             job_id r = job_id h \<and> max_attempts r = max_attempts h \<and>
             attempts r = attempts h \<and> status r = ''running''"
  proof
    fix h assume h: "h \<in> set held'"
    from held[OF h] show "\<exists>r\<in>set (sql_update i f rows).
             job_id r = job_id h \<and> max_attempts r = max_attempts h \<and>
             attempts r = attempts h \<and> status r = ''running''"
    proof
      assume a: "h \<in> set held \<and> job_id h \<noteq> i"
      with i3 obtain r where r: "r \<in> set rows" "job_id r = job_id h" "max_attempts r = max_attempts h"
        "attempts r = attempts h" "status r = ''running''" by blast
      with a have "r \<in> set (sql_update i f rows)"
        by (auto simp: in_set_sql_update intro!: bexI[of _ r])
      with r show ?thesis by blast
    next
      assume "\<exists>r\<in>set rows. job_id r = i \<and> job_id h = i \<and> max_attempts r = max_attempts h \<and>
                   attempts (f r) = attempts h \<and> status (f r) = ''running''"
      then obtain r where r: "r \<in> set rows" "job_id r = i" "job_id h = i" "max_attempts r = max_attempts h"
        "attempts (f r) = attempts h" "status (f r) = ''running''" by blast
      then have "f r \<in> set (sql_update i f rows)"
        by (auto simp: in_set_sql_update intro!: bexI[of _ r])
      with r f show ?thesis by (intro bexI[of _ "f r"]) auto
    qed
  qed
  from 1 2 3 dh show ?thesis by (simp add: sys_inv_def)
qed


lemma sys_inv_enqueue:
  assumes inv: "sys_inv (rows, held)"
    and enq: "enqueue_job json_dumps rows jtype pl max_att avail utcnow now1 now2 = (res, rows')"
  shows "sys_inv (rows', held)"
proof (cases "\<exists>payload_str. json_dumps pl = Some payload_str \<and> sqlite_integer max_att \<and>
                 sqlite_integer (lastrowid rows)")
  case False
  with enq have "rows' = rows"
    by (auto simp: enqueue_job_def split: option.splits if_splits)
  with inv show ?thesis by simp
next
  case True
  then obtain payload_str where Some: "json_dumps pl = Some payload_str"
    and rng: "sqlite_integer max_att" "sqlite_integer (lastrowid rows)" by blast
  define new where "new = \<lparr>job_id = lastrowid rows, job_type = jtype, payload = payload_str,
      status = ''pending'', attempts = 0, max_attempts = max_att,
      available_at = (case avail of None \<Rightarrow> utcnow | Some t \<Rightarrow> t), last_error = None,
      created_at = now1, updated_at = now2\<rparr>"
  from Some rng enq have r': "rows' = rows @ [new]"
    by (simp add: enqueue_job_def new_def)
  have fresh: "job_id new \<notin> job_id ` set rows"
    using lastrowid_fresh by (fastforce simp: new_def)
  have new2: "1 \<le> max_attempts new \<longrightarrow> int (attempts new) < max_attempts new"
    by (simp add: new_def)
  from inv have d: "distinct (map job_id rows)" and dh: "distinct (map job_id held)"
    and i2: "\<forall>r\<in>set rows. 1 \<le> max_attempts r \<longrightarrow>
             status r = ''pending'' \<or> status r = ''running'' \<longrightarrow> int (attempts r) < max_attempts r"
    and i3: "\<forall>h\<in>set held. \<exists>r\<in>set rows.
             job_id r = job_id h \<and> max_attempts r = max_attempts h \<and>
             attempts r = attempts h \<and> status r = ''running''"
    by (simp_all add: sys_inv_def)
  from d fresh have 1: "distinct (map job_id (rows @ [new]))" by simp
  from i2 new2 have 2: "\<forall>r\<in>set (rows @ [new]). 1 \<le> max_attempts r \<longrightarrow>
             status r = ''pending'' \<or> status r = ''running'' \<longrightarrow> int (attempts r) < max_attempts r"
    by simp
  have 3: "\<forall>h\<in>set held. \<exists>r\<in>set (rows @ [new]).
             job_id r = job_id h \<and> max_attempts r = max_attempts h \<and>
             attempts r = attempts h \<and> status r = ''running''"
  proof
    fix h assume "h \<in> set held"
    with i3 obtain r where "r \<in> set rows" "job_id r = job_id h \<and> max_attempts r = max_attempts h \<and>
             attempts r = attempts h \<and> status r = ''running''" by blast
    then show "\<exists>r\<in>set (rows @ [new]).
             job_id r = job_id h \<and> max_attempts r = max_attempts h \<and>
             attempts r = attempts h \<and> status r = ''running''"
      by (intro bexI[of _ r]) simp_all
  qed
  from 1 2 3 dh show ?thesis unfolding r' by (simp add: sys_inv_def)
qed

lemma sys_inv_claim:
  assumes inv: "sys_inv (rows, held)"
    and cl: "get_next_pending_job rows now_iso now0 = (Some j, rows')"
  shows "sys_inv (rows', j # held)"
proof -
  from inv have d: "distinct (map job_id rows)" and dh: "distinct (map job_id held)"
    and i2: "\<And>r. r \<in> set rows \<Longrightarrow> 1 \<le> max_attempts r \<Longrightarrow>
             status r = ''pending'' \<or> status r = ''running'' \<Longrightarrow> int (attempts r) < max_attempts r"
    and i3: "\<And>h. h \<in> set held \<Longrightarrow> \<exists>r\<in>set rows.
             job_id r = job_id h \<and> max_attempts r = max_attempts h \<and>
             attempts r = attempts h \<and> status r = ''running''"
    by (auto simp: sys_inv_def)
  note c = claim_row[OF d cl]
  have other: "job_id h \<noteq> job_id j" if "h \<in> set held" for h
  proof
    assume e: "job_id h = job_id j"
    from i3[OF that] obtain r where r: "r \<in> set rows" "job_id r = job_id h" "status r = ''running''"
      by blast
    with e distinct_ids_eq[OF d r(1) c(1)] have "r = j" by simp
    with r(3) c(2) show False by simp
  qed
  then have other': "job_id j \<notin> job_id ` set held" by (metis imageE)
  have same: "r = j" if "r \<in> set rows" "job_id r = job_id j" for r
    using distinct_ids_eq[OF d that(1) c(1) that(2)] .
  have "sys_inv (sql_update (job_id j) (\<lambda>r. r\<lparr>status := ''running'', updated_at := now0\<rparr>) rows,
                 j # held)"
  proof (rule sys_inv_update[OF inv])
    show "\<And>r. job_id (r\<lparr>status := ''running'', updated_at := now0\<rparr>) = job_id r \<and>
              max_attempts (r\<lparr>status := ''running'', updated_at := now0\<rparr>) = max_attempts r"
      by simp
  next
    fix r assume r: "r \<in> set rows" "job_id r = job_id j" "1 \<le> max_attempts r"
    from same[OF r(1,2)] c(2) i2[OF r(1) r(3)]
    show "int (attempts (r\<lparr>status := ''running'', updated_at := now0\<rparr>)) < max_attempts r"
      by simp
  next
    fix h assume "h \<in> set (j # held)"
    then consider "h = j" | "h \<in> set held" by auto
    then show "h \<in> set held \<and> job_id h \<noteq> job_id j \<or>
         (\<exists>r\<in>set rows. job_id r = job_id j \<and> job_id h = job_id j \<and>
             max_attempts r = max_attempts h \<and>
             attempts (r\<lparr>status := ''running'', updated_at := now0\<rparr>) = attempts h \<and>
             status (r\<lparr>status := ''running'', updated_at := now0\<rparr>) = ''running'')"
    proof cases
      case 1
      with c(1) show ?thesis by (intro disjI2 bexI[of _ j]) auto
    next
      case 2
      with other show ?thesis by simp
    qed
  next
    from dh other' show "distinct (map job_id (j # held))" by simp
  qed
  with c(4) show ?thesis by simp
qed

lemma sys_inv_process:
  assumes inv: "sys_inv (rows, held)" and j: "j \<in> set held"
    and pr: "process_job json_loads HANDLERS base_delay rows j utcnow now1 = (e, evs, rows')"
  shows "sys_inv (rows', remove1 j held)"
proof -
  from inv have d: "distinct (map job_id rows)" and dh: "distinct (map job_id held)"
    and i2: "\<And>r. r \<in> set rows \<Longrightarrow> 1 \<le> max_attempts r \<Longrightarrow>
             status r = ''pending'' \<or> status r = ''running'' \<Longrightarrow> int (attempts r) < max_attempts r"
    and i3: "\<And>h. h \<in> set held \<Longrightarrow> \<exists>r\<in>set rows.
             job_id r = job_id h \<and> max_attempts r = max_attempts h \<and>
             attempts r = attempts h \<and> status r = ''running''"
    by (auto simp: sys_inv_def)
  from process_job_rows[OF pr] obtain f where f: "rows' = sql_update (job_id j) f rows"
    "\<And>r. job_id (f r) = job_id r \<and> max_attempts (f r) = max_attempts r"
    "\<And>r. f r = r \<or> status (f r) = ''dlq'' \<or> status (f r) = ''completed'' \<or>
              (status (f r) = ''pending'' \<and> int (attempts (f r)) < max_attempts j)"
    by blast
  from i3[OF j] obtain r0 where r0: "r0 \<in> set rows" "job_id r0 = job_id j"
    "max_attempts r0 = max_attempts j" by blast
  from dh have dh': "distinct held" "inj_on job_id (set held)" by (auto simp: distinct_map)
  have "sys_inv (sql_update (job_id j) f rows, remove1 j held)"
  proof (rule sys_inv_update[OF inv])
    show "\<And>r. job_id (f r) = job_id r \<and> max_attempts (f r) = max_attempts r" by (rule f(2))
  next
    fix r assume r: "r \<in> set rows" "job_id r = job_id j" "1 \<le> max_attempts r"
      and st: "status (f r) = ''pending'' \<or> status (f r) = ''running''"
    from distinct_ids_eq[OF d r(1) r0(1)] r(2) r0(2) have rr: "r = r0" by simp
    from f(3)[of r] st consider "f r = r" | "status (f r) = ''pending'' \<and> int (attempts (f r)) < max_attempts j"
      by auto
    then show "int (attempts (f r)) < max_attempts r"
    proof cases
      case 1
      with st i2[OF r(1) r(3)] show ?thesis by simp
    next
      case 2
      with rr r0(3) show ?thesis by simp
    qed
  next
    fix h assume h: "h \<in> set (remove1 j held)"
    with dh'(1) have "h \<in> set held" "h \<noteq> j" by auto
    with j dh'(2) have "job_id h \<noteq> job_id j" by (auto dest: inj_onD)
    with \<open>h \<in> set held\<close>
    show "h \<in> set held \<and> job_id h \<noteq> job_id j \<or>
         (\<exists>r\<in>set rows. job_id r = job_id j \<and> job_id h = job_id j \<and>
             max_attempts r = max_attempts h \<and> attempts (f r) = attempts h \<and>
             status (f r) = ''running'')" by simp
  next
    from dh' have "inj_on job_id (set (remove1 j held))"
      by (simp add: inj_on_diff)
    with dh' show "distinct (map job_id (remove1 j held))"
      by (simp add: distinct_map)
  qed
  with f(1) show ?thesis by simp
qed

lemma sys_inv_retry:
  assumes inv: "sys_inv (rows, held)"
    and re: "retry_dlq_job rows i utcnow now1 = (e, rows')"
  shows "sys_inv (rows', held)"
proof (cases "sqlite_integer i \<and> (\<exists>r. find_row rows i = Some r \<and> status r = ''dlq'')")
  case False
  with re have "rows' = rows"
    by (auto simp: retry_dlq_job_def get_job_def split: option.splits if_splits)
  with inv show ?thesis by simp
next
  case True
  then obtain r0 where r0: "find_row rows i = Some r0" "status r0 = ''dlq''"
    and rng: "sqlite_integer i" by blast
  from inv have d: "distinct (map job_id rows)" and dh: "distinct (map job_id held)"
    and i3: "\<And>h. h \<in> set held \<Longrightarrow> \<exists>r\<in>set rows.
             job_id r = job_id h \<and> max_attempts r = max_attempts h \<and>
             attempts r = attempts h \<and> status r = ''running''"
    by (auto simp: sys_inv_def)
  from r0 rng re have r': "rows' = sql_update i
      (\<lambda>r. r\<lparr>status := ''pending'', attempts := 0, available_at := utcnow,
              last_error := None, updated_at := now1\<rparr>) rows"
    by (simp add: retry_dlq_job_def get_job_def)
  have other: "job_id h \<noteq> i" if "h \<in> set held" for h
  proof
    assume e: "job_id h = i"
    from i3[OF that] obtain r where r: "r \<in> set rows" "job_id r = job_id h" "status r = ''running''"
      by blast
    from distinct_ids_eq[OF d r(1) find_row_mem[OF r0(1)]] r(2) e find_row_id[OF r0(1)]
    have "r = r0" by simp
    with r(3) r0(2) show False by simp
  qed
  have "sys_inv (sql_update i (\<lambda>r. r\<lparr>status := ''pending'', attempts := 0, available_at := utcnow,
              last_error := None, updated_at := now1\<rparr>) rows, held)"
  proof (rule sys_inv_update[OF inv])
    show "\<And>r. job_id (r\<lparr>status := ''pending'', attempts := 0, available_at := utcnow,
              last_error := None, updated_at := now1\<rparr>) = job_id r \<and>
            max_attempts (r\<lparr>status := ''pending'', attempts := 0, available_at := utcnow,
              last_error := None, updated_at := now1\<rparr>) = max_attempts r" by simp
  next
    fix r :: job assume "1 \<le> max_attempts r"
    then show "int (attempts (r\<lparr>status := ''pending'', attempts := 0, available_at := utcnow,
              last_error := None, updated_at := now1\<rparr>)) < max_attempts r" by simp
  next
    fix h assume "h \<in> set held"
    with other show "h \<in> set held \<and> job_id h \<noteq> i \<or>
         (\<exists>r\<in>set rows. job_id r = i \<and> job_id h = i \<and> max_attempts r = max_attempts h \<and>
             attempts (r\<lparr>status := ''pending'', attempts := 0, available_at := utcnow,
                last_error := None, updated_at := now1\<rparr>) = attempts h \<and>
             status (r\<lparr>status := ''pending'', attempts := 0, available_at := utcnow,
                last_error := None, updated_at := now1\<rparr>) = ''running'')" by simp
  next
    from dh show "distinct (map job_id held)" .
  qed
  with r' show ?thesis by simp
qed

lemma reachable_sys_inv:
  "reachable json_dumps json_loads HANDLERS s \<Longrightarrow> sys_inv s"
proof (induction rule: reachable.induct)
  case init
  show ?case by (simp add: sys_inv_def)
next
  case (enqueue rows held jtype pl max_att avail utcnow now1 now2 res rows')
  then show ?case by (auto intro: sys_inv_enqueue)
next
  case (claim rows held now_iso now0 j rows')
  then show ?case by (auto intro: sys_inv_claim)
next
  case (process rows held j base_delay utcnow now1 e evs rows')
  then show ?case by (auto intro: sys_inv_process)
next
  case (retry rows held i utcnow now1 e rows')
  then show ?case by (auto intro: sys_inv_retry)
qed

lemma reachable_demo_limit:
  assumes "sqlite_integer m"
  shows "reachable demo_dumps demo_loads demo_handlers
     ([failing_job 1 ''running'' 0 m], [failing_job 1 ''pending'' 0 m])"
proof -
  have 1: "enqueue_job demo_dumps [] ''print_message'' True m None
             63800000000000000 63800000000000000 63800000000000000
           = (Inr 1, [failing_job 1 ''pending'' 0 m])"
    using assms
    by (simp add: enqueue_job_def demo_dumps_def lastrowid_def failing_job_def demo_job_def
                  sqlite_integer_def)
  have 2: "get_next_pending_job [failing_job 1 ''pending'' 0 m] 63800000000000000 63800000000000000
           = (Some (failing_job 1 ''pending'' 0 m), [failing_job 1 ''running'' 0 m])"
    by (simp add: get_next_pending_job_def sql_update_def failing_job_def demo_job_def)
  from reachable.claim[OF reachable.enqueue[OF reachable.init 1] 2] show ?thesis .
qed

lemma reachable_demo:
  "reachable demo_dumps demo_loads demo_handlers
     ([failing_job 1 ''running'' 0 0], [failing_job 1 ''pending'' 0 0])"
  "reachable demo_dumps demo_loads demo_handlers
     ([failing_job 1 ''running'' 0 1], [failing_job 1 ''pending'' 0 1])"
  "reachable demo_dumps demo_loads demo_handlers
     ([failing_job 1 ''running'' 0 3], [failing_job 1 ''pending'' 0 3])"
  by (rule reachable_demo_limit, simp add: sqlite_integer_def)+




text \<open>
  C5, as amended. In a reachable state, when the rest of the pass on a held job with
  \<open>max_attempts\<close> at least one leaves its row in \<open>dlq\<close>, the pass went through the failure
  handling (it logged \<open>Job_failed\<close>) if and only if the row has \<open>attempts = max_attempts\<close>.
\<close>

theorem dlq_by_exhaustion_iff:
  assumes "reachable json_dumps json_loads HANDLERS (rows, held)"
    and "j \<in> set held" and "1 \<le> max_attempts j"
    and "process_job json_loads HANDLERS base_delay rows j utcnow now1 = (e, evs, rows')"
    and "find_row rows' (job_id j) = Some r'" and "status r' = ''dlq''"
  shows "(\<exists>msg. Job_failed (job_id j) msg \<in> set evs) \<longleftrightarrow> int (attempts r') = max_attempts r'"
proof -
  from reachable_sys_inv[OF assms(1)] have d: "distinct (map job_id rows)"
    and i2: "\<And>r. r \<in> set rows \<Longrightarrow> 1 \<le> max_attempts r \<Longrightarrow>
             status r = ''pending'' \<or> status r = ''running'' \<Longrightarrow> int (attempts r) < max_attempts r"
    and i3: "\<And>h. h \<in> set held \<Longrightarrow> \<exists>r\<in>set rows.
             job_id r = job_id h \<and> max_attempts r = max_attempts h \<and>
             attempts r = attempts h \<and> status r = ''running''"
    by (auto simp: sys_inv_def)
  from i3[OF assms(2)] obtain r0 where r0: "r0 \<in> set rows" "job_id r0 = job_id j"
    "max_attempts r0 = max_attempts j" "attempts r0 = attempts j" "status r0 = ''running''"
    by blast
  from find_row_distinct[OF d r0(1)] r0(2) have g: "find_row rows (job_id j) = Some r0" by simp
  from i2[OF r0(1)] r0 assms(3) have lt: "int (attempts j) < max_attempts j" by simp
  from assms(4) show ?thesis
  proof (cases rule: process_job_cases)
    case (undecoded err)
    with assms(5) g r0 have "status r' = ''running''" by simp
    with assms(6) show ?thesis by simp
  next
    case invalid
    with assms(5) g r0 have "attempts r' = attempts j" "max_attempts r' = max_attempts j"
      by (auto simp: find_row_sql_update)
    with lt invalid(3) show ?thesis by simp
  next
    case (unknown pl)
    with assms(5) g r0 have "attempts r' = attempts j" "max_attempts r' = max_attempts j"
      by (auto simp: find_row_sql_update)
    with lt unknown(4) show ?thesis by simp
  next
    case completed
    with assms(5) g r0 have "status r' = ''completed''"
      by (auto simp: find_row_sql_update)
    with assms(6) show ?thesis by simp
  next
    case (exhausted msg)
    with assms(5) g r0 have "attempts r' = attempts j + 1" "max_attempts r' = max_attempts j"
      by (auto simp: find_row_sql_update)
    with lt exhausted(1,3) show ?thesis by simp
  next
    case (rescheduled msg t)
    with assms(5) g r0 have "status r' = ''pending''"
      by (auto simp: find_row_sql_update)
    with assms(6) show ?thesis by simp
  next
    case (crashed msg err)
    with assms(5) g r0 have "status r' = ''running''" by simp
    with assms(6) show ?thesis by simp
  qed
qed

theorem dlq_by_exhaustion_iff_witness:
  "reachable demo_dumps demo_loads demo_handlers
     ([failing_job 1 ''running'' 0 1], [failing_job 1 ''pending'' 0 1]) \<and>
   failing_job 1 ''pending'' 0 1 \<in> set [failing_job 1 ''pending'' 0 1] \<and>
   1 \<le> max_attempts (failing_job 1 ''pending'' 0 1) \<and>
   process_job demo_loads demo_handlers 5 [failing_job 1 ''running'' 0 1]
       (failing_job 1 ''pending'' 0 1) 63800000000000001 63800000000000002
     = (None,
        [Picked 1 ''print_message'', Executing 1,
         Job_failed 1 ''JobExecutionError: Simulated failure in print_message_handler''],
        [(failing_job 1 ''dlq'' 1 1)\<lparr>
            last_error := Some ''JobExecutionError: Simulated failure in print_message_handler'',
            updated_at := 63800000000000002\<rparr>]) \<and>
   int (attempts ((failing_job 1 ''dlq'' 1 1)\<lparr>
            last_error := Some ''JobExecutionError: Simulated failure in print_message_handler'',
            updated_at := 63800000000000002\<rparr>))
     = max_attempts ((failing_job 1 ''dlq'' 1 1)\<lparr>
            last_error := Some ''JobExecutionError: Simulated failure in print_message_handler'',
            updated_at := 63800000000000002\<rparr>)"
proof -
  let ?r' = "(failing_job 1 ''dlq'' 1 1)\<lparr>
            last_error := Some ''JobExecutionError: Simulated failure in print_message_handler'',
            updated_at := 63800000000000002\<rparr>"
  let ?evs = "[Picked 1 ''print_message'', Executing 1,
         Job_failed 1 ''JobExecutionError: Simulated failure in print_message_handler'']"
  have h2: "failing_job 1 ''pending'' 0 1 \<in> set [failing_job 1 ''pending'' 0 1]" by simp
  have h3: "1 \<le> max_attempts (failing_job 1 ''pending'' 0 1)"
    by (simp add: failing_job_def demo_job_def)
  have h4: "process_job demo_loads demo_handlers 5 [failing_job 1 ''running'' 0 1]
       (failing_job 1 ''pending'' 0 1) 63800000000000001 63800000000000002
     = (None, ?evs, [?r'])"
    by (simp add: process_job_def demo_loads_def demo_handlers_def handle_job_failure_def
          sql_update_def failing_job_def demo_job_def Let_def)
  have h5: "find_row [?r'] (job_id (failing_job 1 ''pending'' 0 1)) = Some ?r'"
    by (simp add: find_row_def failing_job_def demo_job_def)
  have h6: "status ?r' = ''dlq''"
    by (simp add: failing_job_def demo_job_def)
  have ev: "\<exists>msg. Job_failed (job_id (failing_job 1 ''pending'' 0 1)) msg \<in> set ?evs"
    by (simp add: failing_job_def demo_job_def)
  from dlq_by_exhaustion_iff[OF reachable_demo(2) h2 h3 h4 h5 h6] ev
  have "int (attempts ?r') = max_attempts ?r'" by blast
  with reachable_demo(2) h2 h3 h4 show ?thesis by blast
qed

text \<open>
  C5 as it is stated fails for a job enqueued with \<open>max_attempts = 0\<close>: its first failure
  moves it to \<open>dlq\<close> through the failure handling with \<open>attempts = 1\<close>.
\<close>

theorem dlq_zero_limit_counterexample:
  "reachable demo_dumps demo_loads demo_handlers
     ([failing_job 1 ''running'' 0 0], [failing_job 1 ''pending'' 0 0]) \<and>
   process_job demo_loads demo_handlers 5 [failing_job 1 ''running'' 0 0]
       (failing_job 1 ''pending'' 0 0) 63800000000000001 63800000000000002
     = (None,
        [Picked 1 ''print_message'', Executing 1,
         Job_failed 1 ''JobExecutionError: Simulated failure in print_message_handler''],
        [(failing_job 1 ''dlq'' 1 0)\<lparr>
            last_error := Some ''JobExecutionError: Simulated failure in print_message_handler'',
            updated_at := 63800000000000002\<rparr>]) \<and>
   status (failing_job 1 ''dlq'' 1 0) = ''dlq'' \<and>
   int (attempts (failing_job 1 ''dlq'' 1 0)) \<noteq> max_attempts (failing_job 1 ''dlq'' 1 0)"
proof -
  have "process_job demo_loads demo_handlers 5 [failing_job 1 ''running'' 0 0]
       (failing_job 1 ''pending'' 0 0) 63800000000000001 63800000000000002
     = (None,
        [Picked 1 ''print_message'', Executing 1,
         Job_failed 1 ''JobExecutionError: Simulated failure in print_message_handler''],
        [(failing_job 1 ''dlq'' 1 0)\<lparr>
            last_error := Some ''JobExecutionError: Simulated failure in print_message_handler'',
            updated_at := 63800000000000002\<rparr>])"
    by (simp add: process_job_def demo_loads_def demo_handlers_def handle_job_failure_def
          sql_update_def failing_job_def demo_job_def Let_def)
  with reachable_demo(1) show ?thesis
    by (simp add: failing_job_def demo_job_def)
qed

end
